theory Spec2Isabelle
  imports Complex_Main
begin

section \<open>The voice-gated command controller of VoiceAssistant.jsx\<close>

text \<open>
  A shallow embedding of \<^verbatim>\<open>src/src/components/VoiceAssistant.jsx\<close>. The component keeps
  three kinds of state: the browser's localStorage (three keys), one mutable ref, and
  React state variables. They are the fields of one record that every operation takes
  and returns. What the component does to the outside (speech output, the router,
  timers, calls of the voice backend) is appended to the field \<open>effects\<close>, oldest first.

  Conventions of the model:
  \<^item> an async function is run to completion in one step; the pure delays
    (\<^verbatim>\<open>await new Promise(r => setTimeout(r, ms))\<close>) and the console output are left out;
  \<^item> the React state variables of the record are the values that the closure of the
    running callback holds. A callback never sees its own calls of a setter, so where it
    reads a variable after setting it, the value it reads is a field of its own: this is
    the case of \<^verbatim>\<open>status\<close> in performVerification, whose closure holds the status of the
    render in which the callback was created (field \<open>status_in_closure\<close>), whatever
    \<^verbatim>\<open>updateStatus\<close> has set since (field \<open>status\<close>);
  \<^item> localStorage holds what the component wrote, or text that does not parse;
  \<^item> the operations imported from \<^verbatim>\<open>../utils/voiceAuthService\<close> are not part of the
    sources; they are the fields of the record \<open>env\<close>, and a rejected promise is the
    value \<open>Inl\<close>;
  \<^item> a confidence is a finite number, compared as a real.
\<close>

subsection \<open>Data\<close>

datatype error = Error string

fun message :: "error \<Rightarrow> string" where
  "message (Error m) = m"

text \<open>An audio sample: its length in bytes and its opaque payload.\<close>

record blob =
  blob_size :: nat
  payload :: "nat list"

text \<open>
  The text stored under a localStorage key that holds a list of names: either the JSON
  of an array of strings, or text that \<^verbatim>\<open>JSON.parse\<close> rejects; \<open>Unparsable m\<close> is such a
  text, \<open>m\<close> being the message of the error that \<^verbatim>\<open>JSON.parse\<close> throws on it.
\<close>

datatype stored = Names "string list" | Unparsable string

fun JSON_parse :: "stored \<Rightarrow> error + string list" where
  "JSON_parse (Names xs) = Inr xs"
| "JSON_parse (Unparsable m) = Inl (Error m)"

text \<open>The answers of the voice backend.\<close>

record auth_result =
  authenticated :: bool
  confidence :: real
  decision :: string

record enroll_result =
  e_success :: bool
  e_message :: string

record challenge =
  c_success :: bool
  c_message :: string
  phrase :: string
  sessionId :: string

record verify_result =
  success :: bool
  speakerMatch :: bool
  phraseMatch :: bool

record env =
  authenticateVoice :: "string \<Rightarrow> blob \<Rightarrow> error + auth_result"
  enrollUser :: "string \<Rightarrow> blob list \<Rightarrow> bool \<Rightarrow> error + enroll_result"
  recordAudio :: "nat \<Rightarrow> nat \<Rightarrow> error + blob"
  startChallenge :: "string \<Rightarrow> error + challenge"
  verifyChallengeWithText :: "string \<Rightarrow> blob \<Rightarrow> string \<Rightarrow> error + verify_result"
  spokenText :: string

text \<open>
  \<open>recordAudio env k ms\<close> is the outcome of the \<open>k\<close>-th recording of a run (counted from
  0), asked to last \<open>ms\<close> milliseconds. \<open>spokenText env\<close> is the final transcript that
  speech recognition delivers during a challenge, empty when there is none or when the
  browser has no speech recognition.
\<close>

text \<open>
  The status messages. Each constructor is one message template of the source:
  \<^item> \<open>Plain m\<close>: a fixed text or \<^verbatim>\<open>error.message\<close>; \<open>m\<close> is the text without its
    pictograph, quotation marks and line breaks;
  \<^item> \<open>INITIALIZING n\<close>: \<^verbatim>\<open>INITIALIZING ${ownerName.toUpperCase()}\<close>;
  \<^item> \<open>SAY p\<close>: \<^verbatim>\<open>SAY: "${phrase}"\<close>;
  \<^item> \<open>SAMPLE k\<close>: \<^verbatim>\<open>SAMPLE ${step + 1}/3\<close> and a check mark;
  \<^item> \<open>VOICE_PHRASE v p\<close>: the two lines \<^verbatim>\<open>VOICE:\<close> and \<^verbatim>\<open>PHRASE:\<close>, each followed by a
    check mark when its flag is true and by a cross when it is not;
  \<^item> \<open>ACCESS_DENIED x\<close>: \<^verbatim>\<open>ACCESS DENIED\<close> and \<^verbatim>\<open>Confidence: ${Math.round(x * 100)}%\<close>;
  \<^item> \<open>ARROW n\<close>: an arrow and \<^verbatim>\<open>${nav.n.toUpperCase()}\<close>.
\<close>

datatype msg =
    Plain string
  | INITIALIZING string
  | SAY string
  | SAMPLE nat
  | VOICE_PHRASE bool bool
  | ACCESS_DENIED real
  | ARROW string

text \<open>
  Timer callbacks: \<open>StatusIdle\<close> is \<^verbatim>\<open>() => updateStatus("idle", "")\<close>;
  \<open>StatusIdleUnlessVerified st\<close> is the callback of performVerification,
  \<^verbatim>\<open>() => { if (status !== "verified") updateStatus("idle", ""); }\<close>, where \<open>st\<close> is the
  value of \<^verbatim>\<open>status\<close> that the enclosing closure holds.
\<close>

datatype callback = StatusIdle | StatusIdleUnlessVerified string

datatype action = RunEnrollment string

datatype effect =
    Speak string
  | Navigate string
  | SetTimeout callback nat
  | IdentifyVoice "blob option"
  | AuthenticateVoice string blob
  | RecordAudio nat
  | EnrollUser string "blob list" bool
  | StartChallenge string
  | VerifyChallengeWithText string blob string

record state =
  synap_owner_password :: "string option"
  synap_owners :: "stored option"
  synap_enrolled_owners :: "stored option"
  enrollmentInProgressRef :: bool
  voiceAuthStatus :: string
  status :: string
  status_in_closure :: string
  statusMessage :: msg
  liveTranscript :: string
  isEnrolled :: bool
  isVerified :: bool
  currentUser :: "string option"
  enrolledOwners :: "string list"
  owners :: "string list"
  isEnrolling :: bool
  enrollmentStep :: nat
  currentEnrollPhrase :: string
  showPinModal :: bool
  pinModalMode :: string
  pinValue :: string
  pinConfirmValue :: string
  pinError :: string
  pendingAction :: "action option"
  effects :: "effect list"

subsection \<open>Storage helpers\<close>

definition ENROLLMENT_PHRASES :: "string list" where
  "ENROLLMENT_PHRASES =
     [''My voice is my password'', ''SynapSense keeps me safe'', ''Home sweet home'']"

definition getOwnerPassword :: "state \<Rightarrow> string option" where
  "getOwnerPassword s = synap_owner_password s"

text \<open>\<^verbatim>\<open>!!getOwnerPassword()\<close>: a stored empty string counts as no PIN.\<close>

definition hasOwnerPassword :: "state \<Rightarrow> bool" where
  "hasOwnerPassword s = (case getOwnerPassword s of None \<Rightarrow> False | Some p \<Rightarrow> p \<noteq> [])"

definition getOwners :: "state \<Rightarrow> error + string list" where
  "getOwners s = (case synap_owners s of None \<Rightarrow> Inr [''owner''] | Some j \<Rightarrow> JSON_parse j)"

text \<open>
  \<^verbatim>\<open>localStorage.getItem(k) || '[]'\<close>: an absent key reads as the empty list. (The stored
  text is never the empty string here: it is written by \<^verbatim>\<open>JSON.stringify\<close> only.)
\<close>

definition getEnrolledOwners :: "state \<Rightarrow> error + string list" where
  "getEnrolledOwners s =
     (case synap_enrolled_owners s of None \<Rightarrow> Inr [] | Some j \<Rightarrow> JSON_parse j)"

definition setEnrolledOwners :: "string list \<Rightarrow> state \<Rightarrow> state" where
  "setEnrolledOwners xs s = s\<lparr>synap_enrolled_owners := Some (Names xs)\<rparr>"

definition markOwnerEnrolled :: "string \<Rightarrow> state \<Rightarrow> error + state" where
  "markOwnerEnrolled name s =
     (case getEnrolledOwners s of
        Inl e \<Rightarrow> Inl e
      | Inr enrolled \<Rightarrow>
          if name \<notin> set enrolled then Inr (setEnrolledOwners (enrolled @ [name]) s)
          else Inr s)"

definition addOwner :: "string \<Rightarrow> state \<Rightarrow> error + state" where
  "addOwner name s =
     (case getOwners s of
        Inl e \<Rightarrow> Inl e
      | Inr os \<Rightarrow>
          if name \<notin> set os then Inr (s\<lparr>synap_owners := Some (Names (os @ [name]))\<rparr>)
          else Inr s)"

definition getUserId :: "string \<Rightarrow> string" where
  "getUserId ownerName = ''voice_'' @ ownerName"

definition speak :: "string \<Rightarrow> state \<Rightarrow> state" where
  "speak text s = s\<lparr>effects := effects s @ [Speak text]\<rparr>"

definition setTimeout :: "callback \<Rightarrow> nat \<Rightarrow> state \<Rightarrow> state" where
  "setTimeout cb ms s = s\<lparr>effects := effects s @ [SetTimeout cb ms]\<rparr>"

definition updateStatus :: "string \<Rightarrow> msg \<Rightarrow> state \<Rightarrow> state" where
  "updateStatus st m s = s\<lparr>status := st, statusMessage := m\<rparr>"

text \<open>What a timer callback does when it fires.\<close>

fun fire :: "callback \<Rightarrow> state \<Rightarrow> state" where
  "fire StatusIdle s = updateStatus ''idle'' (Plain '''') s"
| "fire (StatusIdleUnlessVerified st) s =
     (if st \<noteq> ''verified'' then updateStatus ''idle'' (Plain '''') s else s)"

subsection \<open>Voice identification\<close>

record bestMatch =
  bm_user :: "string option"
  bm_score :: real
  bm_authenticated :: bool
  bm_decision :: string

record voiceCheck =
  identified :: bool
  user :: "string option"
  score :: real
  vc_decision :: "string option"
  vc_error :: "string option"

text \<open>
  One round of the loop over the enrolled owners: \<open>outcome\<close> is what
  \<^verbatim>\<open>await authenticateVoice(getUserId(owner), audioBlob)\<close> gives. A rejected call is caught
  and a \<^verbatim>\<open>NOT_ENROLLED\<close> decision skipped, both leaving the best match as it is.
\<close>

definition check_owner :: "string \<Rightarrow> error + auth_result \<Rightarrow> bestMatch \<Rightarrow> bestMatch" where
  "check_owner owner outcome bm =
     (case outcome of
        Inl e \<Rightarrow> bm
      | Inr result \<Rightarrow>
          if decision result = ''NOT_ENROLLED'' then bm
          else if authenticated result \<and> confidence result > bm_score bm then
            \<lparr>bm_user = Some owner, bm_score = confidence result,
             bm_authenticated = True, bm_decision = decision result\<rparr>
          else if \<not> bm_authenticated bm \<and> confidence result > bm_score bm then
            \<lparr>bm_user = Some owner, bm_score = confidence result,
             bm_authenticated = False, bm_decision = decision result\<rparr>
          else bm)"

fun for_owners :: "env \<Rightarrow> blob \<Rightarrow> string list \<Rightarrow> bestMatch \<Rightarrow> bestMatch" where
  "for_owners env audioBlob [] bm = bm"
| "for_owners env audioBlob (owner # rest) bm =
     for_owners env audioBlob rest
       (check_owner owner (authenticateVoice env (getUserId owner) audioBlob) bm)"

definition initial_bestMatch :: bestMatch where
  "initial_bestMatch =
     \<lparr>bm_user = None, bm_score = 0, bm_authenticated = False, bm_decision = ''''\<rparr>"

text \<open>
  \<open>identifyVoice\<close> returns its result, or the error it throws (reading the enrolled list
  is outside the \<^verbatim>\<open>try\<close> of the loop), and the state with its effects appended: the call
  of identifyVoice itself, then one authenticate call for each enrolled owner.
\<close>

definition identifyVoice :: "env \<Rightarrow> blob option \<Rightarrow> state \<Rightarrow> (error + voiceCheck) \<times> state" where
  "identifyVoice env audioBlob s0 =
     (let s = s0\<lparr>effects := effects s0 @ [IdentifyVoice audioBlob]\<rparr> in
      case getEnrolledOwners s of
        Inl e \<Rightarrow> (Inl e, s)
      | Inr enrolled \<Rightarrow>
          if length enrolled = 0 then
            (Inr \<lparr>identified = True, user = None, score = 1.0,
                  vc_decision = None, vc_error = None\<rparr>, s)
          else
            (case audioBlob of
               None \<Rightarrow>
                 (Inr \<lparr>identified = False, user = None, score = 0,
                       vc_decision = None, vc_error = Some ''No audio''\<rparr>, s)
             | Some b \<Rightarrow>
                 if blob_size b < 1000 then
                   (Inr \<lparr>identified = False, user = None, score = 0,
                         vc_decision = None, vc_error = Some ''No audio''\<rparr>, s)
                 else
                   (let bm = for_owners env b enrolled initial_bestMatch in
                    (Inr \<lparr>identified = bm_authenticated bm, user = bm_user bm,
                          score = bm_score bm, vc_decision = Some (bm_decision bm),
                          vc_error = None\<rparr>,
                     s\<lparr>effects := effects s
                          @ map (\<lambda>owner. AuthenticateVoice (getUserId owner) b) enrolled\<rparr>))))"

subsection \<open>Enrollment\<close>

definition openPinModal :: "string \<Rightarrow> action option \<Rightarrow> state \<Rightarrow> state" where
  "openPinModal mode act s =
     s\<lparr>pinModalMode := mode, pinValue := '''', pinConfirmValue := '''', pinError := '''',
       pendingAction := act, showPinModal := True\<rparr>"

definition startEnrollment :: "string \<Rightarrow> state \<Rightarrow> state" where
  "startEnrollment ownerName s =
     (if voiceAuthStatus s \<noteq> ''ready'' then updateStatus ''error'' (Plain ''OFFLINE'') s
      else if \<not> hasOwnerPassword s then
        openPinModal ''setup'' (Some (RunEnrollment ownerName)) s
      else openPinModal ''verify'' (Some (RunEnrollment ownerName)) s)"

definition call :: "effect \<Rightarrow> state \<Rightarrow> state" where
  "call e s = s\<lparr>effects := effects s @ [e]\<rparr>"

text \<open>
  The loop \<^verbatim>\<open>for (let step = 0; step < ENROLLMENT_PHRASES.length; step++)\<close> of
  runEnrollment, from \<open>step\<close> on, over the phrases that are left. It returns the samples,
  or the error of the recording that failed; in that case the state is the one in which
  runEnrollment returns.
\<close>

fun capture_phrases ::
  "env \<Rightarrow> nat \<Rightarrow> string list \<Rightarrow> blob list \<Rightarrow> state \<Rightarrow> (error + blob list) \<times> state" where
  "capture_phrases env step [] samples s = (Inr samples, s)"
| "capture_phrases env step (ph # rest) samples s =
     (let s1 = speak ph
                 (updateStatus ''enrolling'' (SAY ph)
                    (s\<lparr>currentEnrollPhrase := ph, enrollmentStep := step + 1\<rparr>));
          s2 = call (RecordAudio 4000) (updateStatus ''recording'' (Plain ''RECORDING...'') s1)
      in case recordAudio env step 4000 of
           Inr audioBlob \<Rightarrow>
             capture_phrases env (step + 1) rest (samples @ [audioBlob])
               (updateStatus ''processing'' (SAMPLE (step + 1)) s2)
         | Inl e \<Rightarrow>
             (Inl e,
              (updateStatus ''error'' (Plain (message e)) s2)
                \<lparr>isEnrolling := False, enrollmentInProgressRef := False\<rparr>))"

text \<open>The body of the \<^verbatim>\<open>try\<close> around the backend call of runEnrollment.\<close>

definition build_voiceprint :: "env \<Rightarrow> string \<Rightarrow> blob list \<Rightarrow> state \<Rightarrow> error + state" where
  "build_voiceprint env ownerName samples s =
     (case enrollUser env (getUserId ownerName) samples True of
        Inl e \<Rightarrow> Inl e
      | Inr result \<Rightarrow>
          if e_success result then
            (case markOwnerEnrolled ownerName s of
               Inl e \<Rightarrow> Inl e
             | Inr s1 \<Rightarrow>
                 (case getEnrolledOwners s1 of
                    Inl e \<Rightarrow> Inl e
                  | Inr enrolled \<Rightarrow>
                      Inr (speak ''Voiceprint created successfully.''
                             (updateStatus ''success'' (Plain ''VOICEPRINT CREATED'')
                                (s1\<lparr>enrolledOwners := enrolled, isEnrolled := True\<rparr>)))))
          else Inr (updateStatus ''error'' (Plain (e_message result)) s))"

definition runEnrollment :: "env \<Rightarrow> string \<Rightarrow> state \<Rightarrow> state" where
  "runEnrollment env ownerName s0 =
     (if enrollmentInProgressRef s0 then s0
      else
        let s1 = speak ''Voice enrollment started. Repeat each phrase after me.''
                   (updateStatus ''enrolling'' (INITIALIZING ownerName)
                      (s0\<lparr>enrollmentInProgressRef := True, isEnrolling := True,
                          enrollmentStep := 0\<rparr>))
        in case capture_phrases env 0 ENROLLMENT_PHRASES [] s1 of
             (Inl e, s2) \<Rightarrow> s2
           | (Inr samples, s2) \<Rightarrow>
               let s3 = call (EnrollUser (getUserId ownerName) samples True)
                          (updateStatus ''processing'' (Plain ''CREATING VOICEPRINT...'')
                             (s2\<lparr>currentEnrollPhrase := ''''\<rparr>));
                   s4 = (case build_voiceprint env ownerName samples s3 of
                           Inr s' \<Rightarrow> s'
                         | Inl e \<Rightarrow> updateStatus ''error'' (Plain (message e)) s3)
               in (setTimeout StatusIdle 3000 s4)
                    \<lparr>isEnrolling := False, enrollmentInProgressRef := False\<rparr>)"

subsection \<open>Challenge-response verification\<close>

text \<open>\<^verbatim>\<open>enrolledOwners[0] || "owner"\<close>: the first enrolled name unless it is missing or empty.\<close>

definition target_profile :: "state \<Rightarrow> string" where
  "target_profile s =
     (case enrolledOwners s of
        [] \<Rightarrow> ''owner''
      | x # _ \<Rightarrow> if x = [] then ''owner'' else x)"

text \<open>
  The part of performVerification from the call of \<^verbatim>\<open>verifyChallengeWithText\<close> to the
  end of the \<^verbatim>\<open>try\<close> block; an error is caught by the caller.
\<close>

definition verify_response ::
  "env \<Rightarrow> string \<Rightarrow> challenge \<Rightarrow> blob \<Rightarrow> string \<Rightarrow> state \<Rightarrow> error + state" where
  "verify_response env target ch audioBlob spoken s =
     (case verifyChallengeWithText env (sessionId ch) audioBlob spoken of
        Inl e \<Rightarrow> Inl e
      | Inr result \<Rightarrow>
          if success result \<and> speakerMatch result \<and> phraseMatch result then
            Inr (speak ''Identity verified. You can now use voice commands.''
                   (updateStatus ''verified'' (Plain ''AUTHENTICATED'')
                      (s\<lparr>isVerified := True, currentUser := Some target\<rparr>)))
          else
            Inr (speak ''Authentication failed. Please try again.''
                   (updateStatus ''denied''
                      (VOICE_PHRASE (speakerMatch result) (phraseMatch result)) s)))"

definition performVerification :: "env \<Rightarrow> state \<Rightarrow> state" where
  "performVerification env s0 =
     (if \<not> isEnrolled s0 then
        speak ''Please create a voiceprint first''
          (updateStatus ''error'' (Plain ''NO VOICEPRINT'') s0)
      else
        let target = target_profile s0;
            userId = getUserId target;
            finish = setTimeout (StatusIdleUnlessVerified (status_in_closure s0)) 3000;
            failed = (\<lambda>e s. finish (updateStatus ''error'' (Plain (message e)) s));
            s1 = call (StartChallenge userId)
                   (updateStatus ''verifying'' (Plain ''STARTING...'') s0)
        in case startChallenge env userId of
             Inl e \<Rightarrow> failed e s1
           | Inr ch \<Rightarrow>
               if \<not> c_success ch then failed (Error (c_message ch)) s1
               else
                 let s2 = speak (phrase ch) (updateStatus ''challenge'' (SAY (phrase ch)) s1);
                     s3 = call (RecordAudio 5000)
                            (updateStatus ''listening'' (Plain ''SPEAK NOW'') s2)
                 in (case recordAudio env 0 5000 of
                      Inl e \<Rightarrow> failed e s3
                    | Inr audioBlob \<Rightarrow>
                        let s4 = updateStatus ''processing'' (Plain ''ANALYZING...'')
                                   (s3\<lparr>liveTranscript := ''''\<rparr>);
                            spoken = (if spokenText env = [] then phrase ch
                                      else spokenText env)
                        in if blob_size audioBlob < 1000 then
                             speak ''No audio detected. Please try again.''
                               (updateStatus ''error'' (Plain ''NO AUDIO DETECTED'') s4)
                           else
                             let s5 = call (VerifyChallengeWithText (sessionId ch)
                                              audioBlob spoken) s4
                             in (case verify_response env target ch audioBlob spoken s5 of
                                   Inr s6 \<Rightarrow> finish s6
                                 | Inl e \<Rightarrow> failed e s5)))"

subsection \<open>Command processing\<close>

text \<open>
  A transcript is a list of characters with codes below 256. \<^verbatim>\<open>toLowerCase\<close> moves the
  capital letters, those of ASCII and the accented ones, 32 places up.
\<close>

definition lower_char :: "char \<Rightarrow> char" where
  "lower_char c =
     (let k = (of_char c :: nat)
      in if (65 \<le> k \<and> k \<le> 90) \<or> (192 \<le> k \<and> k \<le> 222 \<and> k \<noteq> 215) then char_of (k + 32)
         else c)"

definition toLowerCase :: "string \<Rightarrow> string" where
  "toLowerCase t = map lower_char t"

text \<open>White space of \<^verbatim>\<open>\s\<close> and \<^verbatim>\<open>trim\<close> among the 8-bit characters.\<close>

definition is_space :: "char \<Rightarrow> bool" where
  "is_space c = (let k = (of_char c :: nat) in (9 \<le> k \<and> k \<le> 13) \<or> k = 32 \<or> k = 160)"

text \<open>The class \<^verbatim>\<open>\w\<close>: letters, digits and the underscore.\<close>

definition is_word :: "char \<Rightarrow> bool" where
  "is_word c =
     (let k = (of_char c :: nat)
      in (48 \<le> k \<and> k \<le> 57) \<or> (65 \<le> k \<and> k \<le> 90) \<or> k = 95 \<or> (97 \<le> k \<and> k \<le> 122))"

definition trim :: "string \<Rightarrow> string" where
  "trim t = rev (dropWhile is_space (rev (dropWhile is_space t)))"

fun starts_with :: "string \<Rightarrow> string \<Rightarrow> bool" where
  "starts_with t [] = True"
| "starts_with [] (k # ks) = False"
| "starts_with (c # cs) (k # ks) = (c = k \<and> starts_with cs ks)"

fun includes_str :: "string \<Rightarrow> string \<Rightarrow> bool" where
  "includes_str [] w = (w = [])"
| "includes_str (c # cs) w = (starts_with (c # cs) w \<or> includes_str cs w)"

text \<open>
  \<^verbatim>\<open>t.match(/enroll\s+(\w+)/i)\<close>, on a text that is already in lower case: the captured
  word of the leftmost match. \<open>enroll_match_at\<close> is the match that starts at the head of
  the text.
\<close>

definition enroll_match_at :: "string \<Rightarrow> string option" where
  "enroll_match_at t =
     (if starts_with t ''enroll'' then
        let rest = drop 6 t;
            spaces = takeWhile is_space rest;
            word = takeWhile is_word (dropWhile is_space rest)
        in if spaces \<noteq> [] \<and> word \<noteq> [] then Some word else None
      else None)"

fun enroll_match :: "string \<Rightarrow> string option" where
  "enroll_match [] = None"
| "enroll_match (c # cs) =
     (case enroll_match_at (c # cs) of Some w \<Rightarrow> Some w | None \<Rightarrow> enroll_match cs)"

text \<open>
  A row of the table \<^verbatim>\<open>NAV\<close>. \<open>nav_p\<close> lists the alternatives \<open>w1, ..., wk\<close> of the pattern
  \<^verbatim>\<open>/\b(w1|...|wk)\b/\<close>, \<open>nav_r\<close> is the route and \<open>nav_n\<close> the name.
\<close>

record nav =
  nav_p :: "string list"
  nav_r :: string
  nav_n :: string

definition NAV :: "nav list" where
  "NAV =
     [\<lparr>nav_p = [''home'', ''dashboard'', ''main'', ''start''], nav_r = ''/'', nav_n = ''Dashboard''\<rparr>,
      \<lparr>nav_p = [''vibration'', ''sensor'', ''signal'', ''piezo''], nav_r = ''/vibrations'',
       nav_n = ''Vibrations''\<rparr>,
      \<lparr>nav_p = [''notification'', ''alert'', ''message''], nav_r = ''/notifications'',
       nav_n = ''Notifications''\<rparr>,
      \<lparr>nav_p = [''profile'', ''account''], nav_r = ''/profile'', nav_n = ''Profile''\<rparr>,
      \<lparr>nav_p = [''setting'', ''config'', ''option''], nav_r = ''/settings'', nav_n = ''Settings''\<rparr>]"

text \<open>
  \<^verbatim>\<open>/\b(w1|...|wk)\b/.test(t)\<close> for alternatives made of word characters: some alternative
  occurs in \<open>t\<close> with no word character right before it and none right after it.
  \<open>word_here t w\<close>: \<open>w\<close> starts \<open>t\<close> and a word boundary follows; \<open>test_from ws prev t\<close>:
  a match in \<open>t\<close>, where \<open>prev\<close> tells whether the character before \<open>t\<close> is a word
  character.
\<close>

definition word_here :: "string \<Rightarrow> string \<Rightarrow> bool" where
  "word_here t w =
     (starts_with t w \<and> (case drop (length w) t of [] \<Rightarrow> True | c # _ \<Rightarrow> \<not> is_word c))"

fun test_from :: "string list \<Rightarrow> bool \<Rightarrow> string \<Rightarrow> bool" where
  "test_from ws prev [] = False"
| "test_from ws prev (c # cs) =
     ((\<not> prev \<and> list_ex (word_here (c # cs)) ws) \<or> test_from ws (is_word c) cs)"

definition test :: "string list \<Rightarrow> string \<Rightarrow> bool" where
  "test ws t = test_from ws False t"

text \<open>The navigation itself, at the end of a matching round of the loop over \<^verbatim>\<open>NAV\<close>.\<close>

definition execute_navigation :: "nav \<Rightarrow> state \<Rightarrow> state" where
  "execute_navigation nv s =
     setTimeout StatusIdle 2000
       (speak (nav_n nv)
          (updateStatus ''success'' (ARROW (nav_n nv)) (call (Navigate (nav_r nv)) s)))"

text \<open>The body of the loop over \<^verbatim>\<open>NAV\<close> for the first row whose pattern matches.\<close>

definition navigation_command :: "env \<Rightarrow> nav \<Rightarrow> blob option \<Rightarrow> state \<Rightarrow> state" where
  "navigation_command env nv audioBlob s =
     (if \<not> isVerified s then
        setTimeout StatusIdle 3000
          (speak ''Please say unlock to authenticate.''
             (updateStatus ''locked'' (Plain ''SAY UNLOCK FIRST'') s))
      else if length (enrolledOwners s) > 0
              \<and> (case audioBlob of None \<Rightarrow> False | Some b \<Rightarrow> blob_size b > 1000) then
        (case identifyVoice env audioBlob
                (updateStatus ''verifying'' (Plain ''VERIFYING VOICE...'') s) of
           (Inl e, s1) \<Rightarrow> execute_navigation nv s1
         | (Inr voiceCheck, s1) \<Rightarrow>
             if \<not> identified voiceCheck then
               setTimeout StatusIdle 3000
                 (speak ''Access denied. Voice not recognized.''
                    (updateStatus ''denied'' (ACCESS_DENIED (score voiceCheck)) s1))
             else execute_navigation nv (s1\<lparr>currentUser := user voiceCheck\<rparr>))
      else execute_navigation nv s)"

definition reset_command :: "state \<Rightarrow> state" where
  "reset_command s =
     setTimeout StatusIdle 2000
       (speak ''System has been reset.''
          (updateStatus ''success'' (Plain ''SYSTEM RESET'')
             (s\<lparr>synap_owner_password := None, synap_enrolled_owners := None,
                synap_owners := None, isEnrolled := False, isVerified := False,
                currentUser := None, enrolledOwners := [], owners := [''owner'']\<rparr>)))"

definition help_command :: "state \<Rightarrow> state" where
  "help_command s =
     setTimeout StatusIdle 5000
       (speak ''Available commands: home, vibrations, notifications, profile, settings, unlock, enroll, and help.''
          (updateStatus ''info''
             (Plain ''COMMANDS: Home / Dashboard, Vibrations / Sensors, Notifications, Profile, Settings'')
             s))"

definition enroll_command :: "string \<Rightarrow> state \<Rightarrow> error + state" where
  "enroll_command t s =
     (case enroll_match t of
        None \<Rightarrow> Inr (startEnrollment ''owner'' s)
      | Some name \<Rightarrow>
          if name \<in> set [''my'', ''voice'', ''me''] then Inr (startEnrollment ''owner'' s)
          else
            (case getOwners s of
               Inl e \<Rightarrow> Inl e
             | Inr os \<Rightarrow>
                 if name \<in> set os then Inr (startEnrollment name s)
                 else
                   (case addOwner name s of
                      Inl e \<Rightarrow> Inl e
                    | Inr s1 \<Rightarrow>
                        (case getOwners s1 of
                           Inl e \<Rightarrow> Inl e
                         | Inr os1 \<Rightarrow> Inr (startEnrollment name (s1\<lparr>owners := os1\<rparr>))))))"

text \<open>
  \<open>processCommand\<close> returns the state it leaves, or the error with which its promise is
  rejected (only reading the profile list can throw, before anything is changed).
\<close>

definition processCommand :: "env \<Rightarrow> string \<Rightarrow> blob option \<Rightarrow> state \<Rightarrow> error + state" where
  "processCommand env text audioBlob s =
     (let t = trim (toLowerCase text) in
      if includes_str t ''enroll'' then enroll_command t s
      else if includes_str t ''verify'' \<or> includes_str t ''authenticate''
              \<or> includes_str t ''login'' \<or> includes_str t ''unlock'' then
        Inr (performVerification env s)
      else if includes_str t ''help'' \<or> includes_str t ''what can'' then Inr (help_command s)
      else if includes_str t ''reset'' \<and> includes_str t ''all'' then Inr (reset_command s)
      else
        (case find (\<lambda>nv. test (nav_p nv) t) NAV of
           Some nv \<Rightarrow> Inr (navigation_command env nv audioBlob s)
         | None \<Rightarrow>
             Inr (setTimeout StatusIdle 2000 (updateStatus ''idle'' (Plain ''SAY HELP'') s))))"

text \<open>The component right after mounting, with nothing in localStorage.\<close>

definition initial_state :: state where
  "initial_state =
     \<lparr>synap_owner_password = None, synap_owners = None, synap_enrolled_owners = None,
      enrollmentInProgressRef = False, voiceAuthStatus = ''unknown'', status = ''idle'',
      status_in_closure = ''idle'',
      statusMessage = Plain '''', liveTranscript = '''', isEnrolled = False,
      isVerified = False, currentUser = None, enrolledOwners = [], owners = [],
      isEnrolling = False, enrollmentStep = 0, currentEnrollPhrase = '''',
      showPinModal = False, pinModalMode = ''setup'', pinValue = '''',
      pinConfirmValue = '''', pinError = '''', pendingAction = None, effects = []\<rparr>"

subsection \<open>Intents and example environments\<close>

text \<open>
  The path conditions of processCommand. \<open>navigate_intent text nv\<close>: no branch before the
  loop over \<^verbatim>\<open>NAV\<close> takes the transcript, and \<open>nv\<close> is the first row whose pattern matches.
  \<open>reset_intent text\<close>: the transcript reaches the reset branch and is taken by it.
\<close>

definition navigate_intent :: "string \<Rightarrow> nav \<Rightarrow> bool" where
  "navigate_intent text nv =
     (let t = trim (toLowerCase text)
      in \<not> includes_str t ''enroll''
         \<and> \<not> (includes_str t ''verify'' \<or> includes_str t ''authenticate''
                \<or> includes_str t ''login'' \<or> includes_str t ''unlock'')
         \<and> \<not> (includes_str t ''help'' \<or> includes_str t ''what can'')
         \<and> \<not> (includes_str t ''reset'' \<and> includes_str t ''all'')
         \<and> find (\<lambda>nv. test (nav_p nv) t) NAV = Some nv)"

definition reset_intent :: "string \<Rightarrow> bool" where
  "reset_intent text =
     (let t = trim (toLowerCase text)
      in \<not> includes_str t ''enroll''
         \<and> \<not> (includes_str t ''verify'' \<or> includes_str t ''authenticate''
                \<or> includes_str t ''login'' \<or> includes_str t ''unlock'')
         \<and> \<not> (includes_str t ''help'' \<or> includes_str t ''what can'')
         \<and> includes_str t ''reset'' \<and> includes_str t ''all'')"

text \<open>
  \<open>no_answer env b owner\<close>: the authenticate call for \<open>owner\<close> is rejected, or answers that
  the profile has no voiceprint.
\<close>

definition no_answer :: "env \<Rightarrow> blob \<Rightarrow> string \<Rightarrow> bool" where
  "no_answer env b owner =
     (case authenticateVoice env (getUserId owner) b of
        Inl e \<Rightarrow> True
      | Inr result \<Rightarrow> decision result = ''NOT_ENROLLED'')"

text \<open>
  Concrete inputs: a sample of \<open>k\<close> bytes, and a backend given by the answer to an
  authenticate call per profile id, the outcome of each recording, and the answers to
  the enroll and verify calls. Its challenge is always issued.
\<close>

definition sample :: "nat \<Rightarrow> blob" where
  "sample k = \<lparr>blob_size = k, payload = []\<rparr>"

definition issued :: challenge where
  "issued =
     \<lparr>c_success = True, c_message = '''', phrase = ''Home sweet home'',
      sessionId = ''session-1''\<rparr>"

definition backend ::
  "(string \<Rightarrow> error + auth_result) \<Rightarrow> (nat \<Rightarrow> error + blob) \<Rightarrow> (error + enroll_result)
     \<Rightarrow> (error + verify_result) \<Rightarrow> env" where
  "backend auth rec enr ver =
     \<lparr>authenticateVoice = (\<lambda>userId b. auth userId),
      enrollUser = (\<lambda>userId samples flag. enr),
      recordAudio = (\<lambda>k ms. rec k),
      startChallenge = (\<lambda>userId. Inr issued),
      verifyChallengeWithText = (\<lambda>sid b spoken. ver),
      spokenText = ''''\<rparr>"

text \<open>A backend that cannot be reached, and a microphone that cannot be opened.\<close>

definition offline :: env where
  "offline =
     backend (\<lambda>userId. Inl (Error ''Failed to fetch'')) (\<lambda>k. Inl (Error ''Microphone denied''))
       (Inl (Error ''Failed to fetch'')) (Inl (Error ''Failed to fetch''))"

text \<open>Profile A is rejected with confidence 0.9, every other profile accepted with 0.3.\<close>

definition two_candidates :: env where
  "two_candidates =
     backend
       (\<lambda>userId. if userId = ''voice_A'' then
                    Inr \<lparr>authenticated = False, confidence = 0.9, decision = ''REJECT''\<rparr>
                  else Inr \<lparr>authenticated = True, confidence = 0.3, decision = ''ACCEPT''\<rparr>)
       (\<lambda>k. Inr (sample 1500)) (Inl (Error ''Failed to fetch'')) (Inl (Error ''Failed to fetch''))"

text \<open>
  Every recording succeeds and the voiceprint is built; the second recording fails;
  every recording succeeds and the backend refuses to build the voiceprint.
\<close>

definition three_samples :: env where
  "three_samples =
     backend (\<lambda>userId. Inl (Error ''Failed to fetch'')) (\<lambda>k. Inr (sample (2000 + k)))
       (Inr \<lparr>e_success = True, e_message = ''''\<rparr>) (Inl (Error ''Failed to fetch''))"

definition second_capture_fails :: env where
  "second_capture_fails =
     backend (\<lambda>userId. Inl (Error ''Failed to fetch''))
       (\<lambda>k. if k = 1 then Inl (Error ''Microphone denied'') else Inr (sample (2000 + k)))
       (Inr \<lparr>e_success = True, e_message = ''''\<rparr>) (Inl (Error ''Failed to fetch''))"

definition enrollment_refused :: env where
  "enrollment_refused =
     backend (\<lambda>userId. Inl (Error ''Failed to fetch'')) (\<lambda>k. Inr (sample (2000 + k)))
       (Inr \<lparr>e_success = False, e_message = ''Samples too short''\<rparr>)
       (Inl (Error ''Failed to fetch''))"

text \<open>The response to the challenge is recorded and the verify call answers \<open>r\<close>.\<close>

definition answering :: "verify_result \<Rightarrow> env" where
  "answering r =
     backend (\<lambda>userId. Inl (Error ''Failed to fetch'')) (\<lambda>k. Inr (sample 1500))
       (Inl (Error ''Failed to fetch'')) (Inr r)"

text \<open>
  States: the default profile enrolled; the same with a verified session; the same with
  the enrolled list in storage replaced by text that does not parse.
\<close>

definition enrolled_state :: state where
  "enrolled_state =
     initial_state\<lparr>synap_owner_password := Some ''1234'',
       synap_enrolled_owners := Some (Names [''owner'']), voiceAuthStatus := ''ready'',
       isEnrolled := True, enrolledOwners := [''owner''], owners := [''owner'']\<rparr>"

definition verified_state :: state where
  "verified_state = enrolled_state\<lparr>isVerified := True, currentUser := Some ''owner''\<rparr>"

definition corrupted_state :: state where
  "corrupted_state =
     verified_state\<lparr>synap_enrolled_owners := Some (Unparsable ''Unexpected end of JSON input'')\<rparr>"

section \<open>Properties\<close>

subsection \<open>Auxiliary facts\<close>

lemmas state_eval = corrupted_state_def verified_state_def enrolled_state_def initial_state_def

lemmas run_eval = runEnrollment_def ENROLLMENT_PHRASES_def call_def speak_def
  setTimeout_def updateStatus_def Let_def

lemmas verify_eval = performVerification_def verify_response_def target_profile_def
  getUserId_def call_def speak_def setTimeout_def updateStatus_def Let_def

lemma getEnrolledOwners_effects [simp]:
  "getEnrolledOwners (s\<lparr>effects := x\<rparr>) = getEnrolledOwners s"
  by (simp add: getEnrolledOwners_def)

text \<open>
  The string functions against their meaning: \<open>includes_str t w\<close> holds when \<open>w\<close> occurs
  in \<open>t\<close>; some values of the two patterns and of the normalisation of a transcript.
\<close>

lemma starts_with_iff: "starts_with t w \<longleftrightarrow> (\<exists>ys. t = w @ ys)"
  by (induction t w rule: starts_with.induct) auto

lemma includes_str_iff: "includes_str t w \<longleftrightarrow> (\<exists>xs ys. t = xs @ w @ ys)"
proof (induction t)
  case Nil
  then show ?case by auto
next
  case (Cons c cs)
  show ?case
  proof
    assume "includes_str (c # cs) w"
    then consider "starts_with (c # cs) w" | "includes_str cs w" by auto
    then show "\<exists>xs ys. c # cs = xs @ w @ ys"
    proof cases
      case 1
      then obtain ys where "c # cs = w @ ys" by (auto simp add: starts_with_iff)
      then have "c # cs = [] @ w @ ys" by simp
      then show ?thesis by blast
    next
      case 2
      with Cons.IH obtain xs ys where "cs = xs @ w @ ys" by blast
      then have "c # cs = (c # xs) @ w @ ys" by simp
      then show ?thesis by blast
    qed
  next
    assume "\<exists>xs ys. c # cs = xs @ w @ ys"
    then obtain xs ys where eq: "c # cs = xs @ w @ ys" by blast
    show "includes_str (c # cs) w"
    proof (cases xs)
      case Nil
      with eq have "starts_with (c # cs) w" by (auto simp add: starts_with_iff)
      then show ?thesis by simp
    next
      case (Cons x xs')
      with eq have "cs = xs' @ w @ ys" by simp
      with Cons.IH have "includes_str cs w" by blast
      then show ?thesis by simp
    qed
  qed
qed

lemma test_examples:
  "test [''home'', ''dashboard'', ''main'', ''start''] ''go home''"
  "test [''home'', ''dashboard'', ''main'', ''start''] ''home, please''"
  "\<not> test [''home'', ''dashboard'', ''main'', ''start''] ''homes''"
  "\<not> test [''home'', ''dashboard'', ''main'', ''start''] ''my_home''"
  "\<not> test [''vibration'', ''sensor'', ''signal'', ''piezo''] ''show vibrations''"
  "test [''setting'', ''config'', ''option''] ''open config''"
  by code_simp+

lemma enroll_match_examples:
  "enroll_match ''please enroll   bob now'' = Some ''bob''"
  "enroll_match ''enrollment enroll_x enroll me'' = Some ''me''"
  "enroll_match ''enroll'' = None"
  by code_simp+

lemma trim_toLowerCase_example: "trim (toLowerCase ''  Go HOME '') = ''go home''"
  by code_simp

lemma go_home: "navigate_intent ''Go home'' (hd NAV)"
  by code_simp

lemma reset_all: "reset_intent ''Reset all''"
  by code_simp

lemma processCommand_navigate:
  "navigate_intent text nv \<Longrightarrow>
     processCommand env text audioBlob s = Inr (navigation_command env nv audioBlob s)"
  by (auto simp add: processCommand_def navigate_intent_def Let_def)

lemma processCommand_reset:
  "reset_intent text \<Longrightarrow> processCommand env text audioBlob s = Inr (reset_command s)"
  by (simp add: processCommand_def reset_intent_def Let_def)

lemma check_owner_no_answer:
  "no_answer env b owner \<Longrightarrow>
     check_owner owner (authenticateVoice env (getUserId owner) b) bm = bm"
  by (auto simp add: no_answer_def check_owner_def split: sum.splits)

lemma for_owners_no_answer:
  "\<forall>owner\<in>set enrolled. no_answer env b owner \<Longrightarrow> for_owners env b enrolled bm = bm"
  by (induction enrolled arbitrary: bm) (simp_all add: check_owner_no_answer)

lemma identifyVoice_scan:
  assumes "getEnrolledOwners s = Inr enrolled" and "enrolled \<noteq> []" and "1000 \<le> blob_size b"
  shows "identifyVoice env (Some b) s =
           (let bm = for_owners env b enrolled initial_bestMatch
            in (Inr \<lparr>identified = bm_authenticated bm, user = bm_user bm, score = bm_score bm,
                      vc_decision = Some (bm_decision bm), vc_error = None\<rparr>,
                s\<lparr>effects := effects s @ IdentifyVoice (Some b)
                     # map (\<lambda>owner. AuthenticateVoice (getUserId owner) b) enrolled\<rparr>))"
  using assms by (simp add: identifyVoice_def Let_def)

text \<open>A verified session, the default profile enrolled, the backend out of reach.\<close>

lemma denied_run:
  "processCommand offline ''Go home'' (Some (sample 1500)) verified_state =
     Inr (verified_state\<lparr>status := ''denied'', statusMessage := ACCESS_DENIED 0,
            effects := [IdentifyVoice (Some (sample 1500)),
                        AuthenticateVoice ''voice_owner'' (sample 1500),
                        Speak ''Access denied. Voice not recognized.'',
                        SetTimeout StatusIdle 3000]\<rparr>)"
  by (simp add: processCommand_navigate [OF go_home] navigation_command_def
      identifyVoice_def getEnrolledOwners_def updateStatus_def state_eval
      sample_def offline_def backend_def check_owner_def initial_bestMatch_def getUserId_def
      setTimeout_def speak_def)

subsection \<open>Identification with nobody enrolled\<close>

text \<open>
  Claim C9. When the list of enrolled profiles read from storage is empty, identifyVoice
  returns \<open>identified = true\<close> with score 1.0 for every audio sample, present or not, and
  whatever the backend would answer. The only effect recorded is the call of
  identifyVoice itself: the backend is not called.
\<close>

theorem identifyVoice_open_gate:
  assumes "getEnrolledOwners s = Inr []"
  shows "identifyVoice env audioBlob s =
           (Inr \<lparr>identified = True, user = None, score = 1, vc_decision = None,
                 vc_error = None\<rparr>,
            s\<lparr>effects := effects s @ [IdentifyVoice audioBlob]\<rparr>)"
  using assms by (simp add: identifyVoice_def)

theorem identifyVoice_open_gate_witness:
  "getEnrolledOwners initial_state = Inr []
   \<and> identifyVoice offline (Some (sample 1500)) initial_state =
       (Inr \<lparr>identified = True, user = None, score = 1, vc_decision = None,
             vc_error = None\<rparr>,
        initial_state\<lparr>effects := effects initial_state @ [IdentifyVoice (Some (sample 1500))]\<rparr>)"
proof -
  have h: "getEnrolledOwners initial_state = Inr []"
    by (simp add: getEnrolledOwners_def initial_state_def)
  from identifyVoice_open_gate [OF h] h show ?thesis by simp
qed

subsection \<open>The running best match\<close>

text \<open>
  Claim C1 says that an authenticated candidate beats a non-authenticated one even when
  the latter has the higher confidence, so that the candidates A (not authenticated, 0.9)
  and B (authenticated, 0.3), in this order, give B. The loop replaces the best match by
  an authenticated candidate only when its confidence exceeds the best score so far:
  with A before B it keeps A and reports \<open>identified = false\<close>. With B before A it
  selects B, since a non-authenticated candidate never replaces an authenticated one.
\<close>

theorem identifyVoice_keeps_unauthenticated_best:
  "fst (identifyVoice two_candidates (Some (sample 1500))
          (initial_state\<lparr>synap_enrolled_owners := Some (Names [''A'', ''B''])\<rparr>))
     = Inr \<lparr>identified = False, user = Some ''A'', score = 0.9,
            vc_decision = Some ''REJECT'', vc_error = None\<rparr>
   \<and> fst (identifyVoice two_candidates (Some (sample 1500))
          (initial_state\<lparr>synap_enrolled_owners := Some (Names [''B'', ''A''])\<rparr>))
     = Inr \<lparr>identified = True, user = Some ''B'', score = 0.3,
            vc_decision = Some ''ACCEPT'', vc_error = None\<rparr>"
  by (simp add: identifyVoice_def getEnrolledOwners_def initial_state_def backend_def
      two_candidates_def sample_def check_owner_def initial_bestMatch_def getUserId_def Let_def)

subsection \<open>A scan in which no profile answers\<close>

text \<open>
  Claim C10. Let the enrolled list be non-empty and the sample have at least 1000 bytes.
  If for every enrolled profile the authenticate call is rejected or answers
  \<^verbatim>\<open>NOT_ENROLLED\<close>, then identifyVoice does not throw: it returns \<open>identified = false\<close>,
  no user and score 0. A navigation command of a verified session that comes with such
  a sample (of more than 1000 bytes) is therefore denied with confidence 0: the effects
  are the scan and the denial, and the router is not called.
\<close>

theorem outage_is_denial:
  assumes "getEnrolledOwners s = Inr enrolled" and "enrolled \<noteq> []" and "1000 \<le> blob_size b"
    and "\<forall>owner\<in>set enrolled. no_answer env b owner"
  shows "fst (identifyVoice env (Some b) s) =
           Inr \<lparr>identified = False, user = None, score = 0, vc_decision = Some '''',
                vc_error = None\<rparr>
         \<and> (navigate_intent text nv \<and> isVerified s \<and> enrolledOwners s \<noteq> [] \<and> 1000 < blob_size b
              \<longrightarrow> (\<exists>s'. processCommand env text (Some b) s = Inr s'
                     \<and> status s' = ''denied'' \<and> statusMessage s' = ACCESS_DENIED 0
                     \<and> effects s' = effects s @ IdentifyVoice (Some b)
                          # map (\<lambda>owner. AuthenticateVoice (getUserId owner) b) enrolled
                          @ [Speak ''Access denied. Voice not recognized.'',
                             SetTimeout StatusIdle 3000]))"
proof -
  have scan: "for_owners env b enrolled initial_bestMatch = initial_bestMatch"
    using assms(4) by (rule for_owners_no_answer)
  have stored:
    "getEnrolledOwners (updateStatus ''verifying'' (Plain ''VERIFYING VOICE...'') s) = Inr enrolled"
    using assms(1) by (simp add: getEnrolledOwners_def updateStatus_def)
  have first: "fst (identifyVoice env (Some b) s) =
           Inr \<lparr>identified = False, user = None, score = 0, vc_decision = Some '''',
                vc_error = None\<rparr>"
    by (simp add: identifyVoice_scan [OF assms(1-3)] scan Let_def, simp add: initial_bestMatch_def)
  have second: "\<exists>s'. processCommand env text (Some b) s = Inr s'
                     \<and> status s' = ''denied'' \<and> statusMessage s' = ACCESS_DENIED 0
                     \<and> effects s' = effects s @ IdentifyVoice (Some b)
                          # map (\<lambda>owner. AuthenticateVoice (getUserId owner) b) enrolled
                          @ [Speak ''Access denied. Voice not recognized.'',
                             SetTimeout StatusIdle 3000]"
    if "navigate_intent text nv" "isVerified s" "enrolledOwners s \<noteq> []" "1000 < blob_size b"
    using that
    by (simp add: processCommand_navigate navigation_command_def
        identifyVoice_scan [OF stored assms(2,3)] scan Let_def,
        simp add: initial_bestMatch_def setTimeout_def speak_def updateStatus_def)
  from first second show ?thesis by blast
qed

theorem outage_is_denial_witness:
  "getEnrolledOwners verified_state = Inr [''owner''] \<and> [''owner''] \<noteq> []
   \<and> 1000 \<le> blob_size (sample 1500) \<and> no_answer offline (sample 1500) ''owner''
   \<and> fst (identifyVoice offline (Some (sample 1500)) verified_state) =
       Inr \<lparr>identified = False, user = None, score = 0, vc_decision = Some '''',
            vc_error = None\<rparr>
   \<and> navigate_intent ''Go home'' (hd NAV) \<and> isVerified verified_state
   \<and> enrolledOwners verified_state \<noteq> [] \<and> 1000 < blob_size (sample 1500)
   \<and> (\<exists>s'. processCommand offline ''Go home'' (Some (sample 1500)) verified_state = Inr s'
         \<and> status s' = ''denied'' \<and> statusMessage s' = ACCESS_DENIED 0
         \<and> effects s' = effects verified_state @ IdentifyVoice (Some (sample 1500))
              # map (\<lambda>owner. AuthenticateVoice (getUserId owner) (sample 1500)) [''owner'']
              @ [Speak ''Access denied. Voice not recognized.'', SetTimeout StatusIdle 3000])"
proof -
  have h1: "getEnrolledOwners verified_state = Inr [''owner'']"
    by (simp add: getEnrolledOwners_def state_eval)
  have h2: "[''owner''] \<noteq> []" by simp
  have h3: "1000 \<le> blob_size (sample 1500)" by (simp add: sample_def)
  have h4: "no_answer offline (sample 1500) ''owner''"
    by (simp add: no_answer_def offline_def backend_def)
  have h4': "\<forall>owner\<in>set [''owner'']. no_answer offline (sample 1500) owner"
    using h4 by simp
  have h5: "navigate_intent ''Go home'' (hd NAV)" by (rule go_home)
  have h6: "isVerified verified_state \<and> enrolledOwners verified_state \<noteq> []"
    by (simp add: state_eval)
  have h7: "1000 < blob_size (sample 1500)" by (simp add: sample_def)
  from outage_is_denial [OF h1 h2 h3 h4', of "''Go home''" "hd NAV"] h1 h3 h4 h5 h6 h7
  show ?thesis by simp
qed

subsection \<open>Navigation while the session is not verified\<close>

text \<open>
  Claim C3. For every transcript that is a navigation command (no earlier branch of
  processCommand takes it and a row of the table matches), when \<open>isVerified\<close> is false the
  command sets the status \<^verbatim>\<open>locked\<close>, asks the user to unlock and schedules the return to
  idle; it changes nothing else. Its effects hold no call of the router.
\<close>

theorem navigate_locked_when_unverified:
  assumes "navigate_intent text nv" and "\<not> isVerified s"
  shows "processCommand env text audioBlob s =
           Inr (s\<lparr>status := ''locked'', statusMessage := Plain ''SAY UNLOCK FIRST'',
                  effects := effects s @ [Speak ''Please say unlock to authenticate.'',
                                          SetTimeout StatusIdle 3000]\<rparr>)"
  using assms
  by (simp add: processCommand_navigate navigation_command_def setTimeout_def speak_def
      updateStatus_def)

theorem navigate_locked_when_unverified_witness:
  "navigate_intent ''Go home'' (hd NAV) \<and> \<not> isVerified initial_state
   \<and> processCommand offline ''Go home'' (Some (sample 1500)) initial_state =
       Inr (initial_state\<lparr>status := ''locked'', statusMessage := Plain ''SAY UNLOCK FIRST'',
              effects := effects initial_state @ [Speak ''Please say unlock to authenticate.'',
                                      SetTimeout StatusIdle 3000]\<rparr>)"
proof -
  have h1: "navigate_intent ''Go home'' (hd NAV)" by (rule go_home)
  have h2: "\<not> isVerified initial_state" by (simp add: initial_state_def)
  from navigate_locked_when_unverified [OF h1 h2] h1 h2 show ?thesis by simp
qed

subsection \<open>Live re-identification before a navigation\<close>




subsection \<open>Which samples are re-identified\<close>

text \<open>
  Claim C5 ends on: identifyVoice itself would return \<open>identified = false\<close> for any sample
  below 1000 bytes. That holds only when somebody is enrolled: identifyVoice looks at the
  enrolled list first, and with an empty list it returns \<open>identified = true\<close> for a
  sample of 500 bytes as for any other. Here the session is verified and the only
  enrolled profile has been removed since.
\<close>

theorem short_sample_open_gate_counterexample:
  "isVerified (verified_state\<lparr>synap_enrolled_owners := Some (Names []), enrolledOwners := []\<rparr>)
   \<and> blob_size (sample 500) < 1000
   \<and> fst (identifyVoice offline (Some (sample 500))
            (verified_state\<lparr>synap_enrolled_owners := Some (Names []), enrolledOwners := []\<rparr>)) =
       Inr \<lparr>identified = True, user = None, score = 1, vc_decision = None, vc_error = None\<rparr>"
  by (simp add: identifyVoice_def getEnrolledOwners_def state_eval sample_def)

text \<open>
  Claim C5, amended. For a navigation command of a verified session:
  a command whose sample is absent or has at most 1000 bytes skips identification and
  the navigation is carried out unchecked (the effects are the router call, the spoken
  name and the timer); a run in which identifyVoice is called comes with a sample of more
  than 1000 bytes; and identifyVoice itself, when at least one profile is enrolled,
  returns \<open>identified = false\<close> with the error \<^verbatim>\<open>No audio\<close> for every sample below 1000
  bytes.
\<close>

theorem reidentification_needs_long_sample:
  assumes "navigate_intent text nv" and "isVerified s"
  shows "(audioBlob = None \<or> (\<exists>b. audioBlob = Some b \<and> blob_size b \<le> 1000) \<longrightarrow>
            processCommand env text audioBlob s =
              Inr (s\<lparr>status := ''success'', statusMessage := ARROW (nav_n nv),
                     effects := effects s @ [Navigate (nav_r nv), Speak (nav_n nv),
                                             SetTimeout StatusIdle 2000]\<rparr>))
       \<and> (processCommand env text audioBlob s = Inr s'
            \<and> IdentifyVoice x \<in> set (drop (length (effects s)) (effects s')) \<longrightarrow>
          (\<exists>b. audioBlob = Some b \<and> 1000 < blob_size b))
       \<and> (getEnrolledOwners s = Inr enrolled \<and> enrolled \<noteq> [] \<and> blob_size b' < 1000 \<longrightarrow>
            fst (identifyVoice env (Some b') s) =
              Inr \<lparr>identified = False, user = None, score = 0, vc_decision = None,
                   vc_error = Some ''No audio''\<rparr>)"
proof -
  have skip: "processCommand env text audioBlob s =
              Inr (s\<lparr>status := ''success'', statusMessage := ARROW (nav_n nv),
                     effects := effects s @ [Navigate (nav_r nv), Speak (nav_n nv),
                                             SetTimeout StatusIdle 2000]\<rparr>)"
    if "audioBlob = None \<or> (\<exists>b. audioBlob = Some b \<and> blob_size b \<le> 1000)"
    using that assms
    by (auto simp add: processCommand_navigate navigation_command_def execute_navigation_def
        call_def setTimeout_def speak_def updateStatus_def)
  have only: "\<exists>b. audioBlob = Some b \<and> 1000 < blob_size b"
    if run: "processCommand env text audioBlob s = Inr s'"
      and ident: "IdentifyVoice x \<in> set (drop (length (effects s)) (effects s'))"
  proof (rule ccontr)
    assume "\<not> (\<exists>b. audioBlob = Some b \<and> 1000 < blob_size b)"
    then have "audioBlob = None \<or> (\<exists>b. audioBlob = Some b \<and> blob_size b \<le> 1000)"
      by (cases audioBlob) (auto simp add: not_less)
    from skip [OF this] run ident show False by auto
  qed
  have floor: "fst (identifyVoice env (Some b') s) =
              Inr \<lparr>identified = False, user = None, score = 0, vc_decision = None,
                   vc_error = Some ''No audio''\<rparr>"
    if "getEnrolledOwners s = Inr enrolled" "enrolled \<noteq> []" "blob_size b' < 1000"
    using that by (simp add: identifyVoice_def)
  from skip only floor show ?thesis by blast
qed

theorem reidentification_needs_long_sample_witness:
  "navigate_intent ''Go home'' (hd NAV) \<and> isVerified verified_state
   \<and> processCommand offline ''Go home'' None verified_state =
       Inr (verified_state\<lparr>status := ''success'', statusMessage := ARROW (nav_n (hd NAV)),
              effects := effects verified_state
                @ [Navigate (nav_r (hd NAV)), Speak (nav_n (hd NAV)), SetTimeout StatusIdle 2000]\<rparr>)
   \<and> (\<exists>s'. processCommand offline ''Go home'' (Some (sample 1500)) verified_state = Inr s'
         \<and> IdentifyVoice (Some (sample 1500))
             \<in> set (drop (length (effects verified_state)) (effects s')))
   \<and> (\<exists>b. Some (sample 1500) = Some b \<and> 1000 < blob_size b)
   \<and> getEnrolledOwners verified_state = Inr [''owner''] \<and> blob_size (sample 500) < 1000
   \<and> fst (identifyVoice offline (Some (sample 500)) verified_state) =
       Inr \<lparr>identified = False, user = None, score = 0, vc_decision = None,
            vc_error = Some ''No audio''\<rparr>"
proof -
  let ?s' = "verified_state\<lparr>status := ''denied'', statusMessage := ACCESS_DENIED 0,
            effects := [IdentifyVoice (Some (sample 1500)),
                        AuthenticateVoice ''voice_owner'' (sample 1500),
                        Speak ''Access denied. Voice not recognized.'',
                        SetTimeout StatusIdle 3000]\<rparr>"
  have h1: "navigate_intent ''Go home'' (hd NAV)" by (rule go_home)
  have h2: "isVerified verified_state" by (simp add: state_eval)
  have mem: "IdentifyVoice (Some (sample 1500))
               \<in> set (drop (length (effects verified_state)) (effects ?s'))"
    by (simp add: state_eval)
  have h3: "getEnrolledOwners verified_state = Inr [''owner'']"
    by (simp add: getEnrolledOwners_def state_eval)
  have h4: "blob_size (sample 500) < 1000" by (simp add: sample_def)
  note skip = reidentification_needs_long_sample [OF h1 h2, THEN conjunct1, of None offline]
  note only = reidentification_needs_long_sample [OF h1 h2, THEN conjunct2, THEN conjunct1,
      of offline "Some (sample 1500)" ?s' "Some (sample 1500)"]
  note floor = reidentification_needs_long_sample [OF h1 h2, THEN conjunct2, THEN conjunct2,
      of "[''owner'']" "sample 500" offline]
  from skip have r1: "processCommand offline ''Go home'' None verified_state =
       Inr (verified_state\<lparr>status := ''success'', statusMessage := ARROW (nav_n (hd NAV)),
              effects := effects verified_state
                @ [Navigate (nav_r (hd NAV)), Speak (nav_n (hd NAV)), SetTimeout StatusIdle 2000]\<rparr>)"
    by blast
  from only denied_run mem
  have r2: "\<exists>b. Some (sample 1500) = Some b \<and> 1000 < blob_size b" by blast
  from floor h3 h4
  have r3: "fst (identifyVoice offline (Some (sample 500)) verified_state) =
       Inr \<lparr>identified = False, user = None, score = 0, vc_decision = None,
            vc_error = Some ''No audio''\<rparr>" by blast
  from denied_run mem
  have ex: "\<exists>s'. processCommand offline ''Go home'' (Some (sample 1500)) verified_state = Inr s'
         \<and> IdentifyVoice (Some (sample 1500))
             \<in> set (drop (length (effects verified_state)) (effects s'))" by blast
  from h1 h2 r1 ex r2 h3 h4 r3 show ?thesis by blast
qed

subsection \<open>Full reset\<close>

text \<open>
  Claim C8. For every state, a transcript that reaches the reset branch of processCommand
  (it contains \<^verbatim>\<open>reset\<close> and \<^verbatim>\<open>all\<close>, and none of the words of the enroll, authenticate
  and help branches before it) removes the PIN, leaves the enrolled list empty and the
  profile list equal to the default profile alone, in storage and in the component's
  state, sets \<open>isVerified\<close> to false and clears \<open>currentUser\<close>.
\<close>

theorem reset_all_clears_everything:
  assumes "reset_intent text"
  shows "\<exists>s'. processCommand env text audioBlob s = Inr s'
           \<and> getOwnerPassword s' = None \<and> \<not> hasOwnerPassword s'
           \<and> getEnrolledOwners s' = Inr [] \<and> enrolledOwners s' = []
           \<and> getOwners s' = Inr [''owner''] \<and> owners s' = [''owner'']
           \<and> \<not> isVerified s' \<and> currentUser s' = None \<and> \<not> isEnrolled s'"
  using assms
  by (simp add: processCommand_reset reset_command_def setTimeout_def speak_def
      updateStatus_def getOwnerPassword_def hasOwnerPassword_def getEnrolledOwners_def
      getOwners_def)

theorem reset_all_clears_everything_witness:
  "reset_intent ''Reset all''
   \<and> hasOwnerPassword verified_state \<and> isVerified verified_state
   \<and> (\<exists>s'. processCommand offline ''Reset all'' None verified_state = Inr s'
           \<and> getOwnerPassword s' = None \<and> \<not> hasOwnerPassword s'
           \<and> getEnrolledOwners s' = Inr [] \<and> enrolledOwners s' = []
           \<and> getOwners s' = Inr [''owner''] \<and> owners s' = [''owner'']
           \<and> \<not> isVerified s' \<and> currentUser s' = None \<and> \<not> isEnrolled s')"
proof -
  have h: "reset_intent ''Reset all''" by (rule reset_all)
  have before: "hasOwnerPassword verified_state \<and> isVerified verified_state"
    by (simp add: hasOwnerPassword_def getOwnerPassword_def state_eval)
  from reset_all_clears_everything [OF h, of offline None verified_state] h before
  show ?thesis by blast
qed

subsection \<open>Enrollment\<close>

text \<open>
  Claim C7. When an enrollment run is active (the ref enrollmentInProgressRef is set),
  runEnrollment returns at once and leaves the whole state as it is: storage, session,
  the running enrollment's step and phrase, and the effects.
\<close>

theorem runEnrollment_guard:
  "enrollmentInProgressRef s \<Longrightarrow> runEnrollment env ownerName s = s"
  by (simp add: runEnrollment_def)

theorem runEnrollment_guard_witness:
  "enrollmentInProgressRef (initial_state\<lparr>enrollmentInProgressRef := True\<rparr>)
   \<and> runEnrollment offline ''guest'' (initial_state\<lparr>enrollmentInProgressRef := True\<rparr>)
       = initial_state\<lparr>enrollmentInProgressRef := True\<rparr>"
proof -
  have h: "enrollmentInProgressRef (initial_state\<lparr>enrollmentInProgressRef := True\<rparr>)"
    by simp
  from runEnrollment_guard [OF h] h show ?thesis by simp
qed

text \<open>The run when the first, the second or the third recording fails.\<close>

lemma run_fail0:
  assumes "\<not> enrollmentInProgressRef s" and "recordAudio env 0 4000 = Inl e"
  shows "runEnrollment env ownerName s =
    s\<lparr>enrollmentInProgressRef := False, isEnrolling := False, enrollmentStep := 1,
      currentEnrollPhrase := ''My voice is my password'',
      status := ''error'', statusMessage := Plain (message e),
      effects := effects s @ [Speak ''Voice enrollment started. Repeat each phrase after me.'',
        Speak ''My voice is my password'', RecordAudio 4000]\<rparr>"
  using assms by (simp add: run_eval)

lemma run_fail1:
  assumes "\<not> enrollmentInProgressRef s" and "recordAudio env 0 4000 = Inr b0"
    and "recordAudio env 1 4000 = Inl e"
  shows "runEnrollment env ownerName s =
    s\<lparr>enrollmentInProgressRef := False, isEnrolling := False, enrollmentStep := 2,
      currentEnrollPhrase := ''SynapSense keeps me safe'',
      status := ''error'', statusMessage := Plain (message e),
      effects := effects s @ [Speak ''Voice enrollment started. Repeat each phrase after me.'',
        Speak ''My voice is my password'', RecordAudio 4000,
        Speak ''SynapSense keeps me safe'', RecordAudio 4000]\<rparr>"
  using assms by (simp add: run_eval)

lemma run_fail2:
  assumes "\<not> enrollmentInProgressRef s" and "recordAudio env 0 4000 = Inr b0"
    and "recordAudio env 1 4000 = Inr b1" and "recordAudio env 2 4000 = Inl e"
  shows "runEnrollment env ownerName s =
    s\<lparr>enrollmentInProgressRef := False, isEnrolling := False, enrollmentStep := 3,
      currentEnrollPhrase := ''Home sweet home'',
      status := ''error'', statusMessage := Plain (message e),
      effects := effects s @ [Speak ''Voice enrollment started. Repeat each phrase after me.'',
        Speak ''My voice is my password'', RecordAudio 4000,
        Speak ''SynapSense keeps me safe'', RecordAudio 4000,
        Speak ''Home sweet home'', RecordAudio 4000]\<rparr>"
  using assms by (simp add: run_eval numeral_2_eq_2)

text \<open>The run when the three recordings succeed, up to the outcome of the backend call.\<close>

lemma run_captured:
  assumes "\<not> enrollmentInProgressRef s" and "recordAudio env 0 4000 = Inr b0"
    and "recordAudio env 1 4000 = Inr b1" and "recordAudio env 2 4000 = Inr b2"
  shows "runEnrollment env ownerName s =
    (let s3 = s\<lparr>enrollmentInProgressRef := True, isEnrolling := True, enrollmentStep := 3,
                currentEnrollPhrase := '''', status := ''processing'',
                statusMessage := Plain ''CREATING VOICEPRINT...'',
                effects := effects s
                  @ [Speak ''Voice enrollment started. Repeat each phrase after me.'',
                     Speak ''My voice is my password'', RecordAudio 4000,
                     Speak ''SynapSense keeps me safe'', RecordAudio 4000,
                     Speak ''Home sweet home'', RecordAudio 4000,
                     EnrollUser (getUserId ownerName) [b0, b1, b2] True]\<rparr>;
         s4 = (case build_voiceprint env ownerName [b0, b1, b2] s3 of
                 Inr s' \<Rightarrow> s'
               | Inl e \<Rightarrow> s3\<lparr>status := ''error'', statusMessage := Plain (message e)\<rparr>)
     in s4\<lparr>effects := effects s4 @ [SetTimeout StatusIdle 3000], isEnrolling := False,
           enrollmentInProgressRef := False\<rparr>)"
  using assms by (simp add: run_eval numeral_2_eq_2 numeral_3_eq_3 cong: sum.case_cong)

lemma build_voiceprint_success:
  assumes "status (case build_voiceprint env ownerName samples s of
                     Inr s' \<Rightarrow> s'
                   | Inl e \<Rightarrow> s\<lparr>status := ''error'', statusMessage := Plain (message e)\<rparr>)
             = ''success''"
  shows "\<exists>result s'. enrollUser env (getUserId ownerName) samples True = Inr result
           \<and> e_success result
           \<and> build_voiceprint env ownerName samples s = Inr s'
           \<and> effects s' = effects s @ [Speak ''Voiceprint created successfully.'']
           \<and> (\<exists>enrolled. getEnrolledOwners s' = Inr enrolled \<and> ownerName \<in> set enrolled)"
proof (cases "enrollUser env (getUserId ownerName) samples True")
  case (Inl e)
  with assms show ?thesis by (simp add: build_voiceprint_def)
next
  case (Inr result)
  show ?thesis
  proof (cases "e_success result")
    case False
    with Inr assms show ?thesis by (simp add: build_voiceprint_def updateStatus_def)
  next
    case True
    show ?thesis
    proof (cases "getEnrolledOwners s")
      case (Inl e)
      with Inr True assms show ?thesis
        by (simp add: build_voiceprint_def markOwnerEnrolled_def)
    next
      case enrolled: (Inr enrolled)
      with Inr True show ?thesis
        by (simp add: build_voiceprint_def markOwnerEnrolled_def setEnrolledOwners_def
            getEnrolledOwners_def speak_def updateStatus_def)
    qed
  qed
qed

lemma build_voiceprint_refused:
  assumes "\<not> (\<exists>result. enrollUser env (getUserId ownerName) samples True = Inr result
                 \<and> e_success result)"
  shows "(case build_voiceprint env ownerName samples s of
            Inr s' \<Rightarrow> s'
          | Inl e \<Rightarrow> s\<lparr>status := ''error'', statusMessage := Plain (message e)\<rparr>)
         = s\<lparr>status := ''error'',
             statusMessage := Plain (case enrollUser env (getUserId ownerName) samples True of
                                       Inl e \<Rightarrow> message e
                                     | Inr result \<Rightarrow> e_message result)\<rparr>"
proof (cases "enrollUser env (getUserId ownerName) samples True")
  case (Inl e)
  then show ?thesis by (simp add: build_voiceprint_def)
next
  case (Inr result)
  with assms have "\<not> e_success result" by simp
  with Inr show ?thesis by (simp add: build_voiceprint_def updateStatus_def)
qed

text \<open>
  Claim C6. Take a run of runEnrollment that starts (no other run is active).
  If it ends with the status \<^verbatim>\<open>success\<close>, then the three recordings succeeded, the
  backend was asked once to enroll exactly these three samples and answered with
  success, and the profile is in the enrolled list in storage; the effects of the run are
  the three prompts and recordings, the enroll call, the announcement and the timer.
  If the recording number \<open>k\<close> (0, 1 or 2) is the first that fails, the run ends with
  the status \<^verbatim>\<open>error\<close> and the message of that error, the guard and the enrolling flag
  are released, the enrolled list is what it was in storage and in the component's
  state, and the failed recording is the last effect of the run: nothing is recorded
  again and the backend is not asked to enroll.
  If the three recordings succeed and the enroll call is rejected or answers without
  success, the run ends with the status \<^verbatim>\<open>error\<close> and the message of the error or of
  the answer, the guard and the enrolling flag are released, and the enrolled list is
  what it was in storage and in the component's state: the profile is marked enrolled
  only after a successful enroll call.
\<close>

theorem enrollment_done_or_failed:
  assumes "\<not> enrollmentInProgressRef s"
  shows "(status (runEnrollment env ownerName s) = ''success'' \<longrightarrow>
            (\<exists>b0 b1 b2 result.
               recordAudio env 0 4000 = Inr b0 \<and> recordAudio env 1 4000 = Inr b1
               \<and> recordAudio env 2 4000 = Inr b2
               \<and> enrollUser env (getUserId ownerName) [b0, b1, b2] True = Inr result
               \<and> e_success result
               \<and> effects (runEnrollment env ownerName s) =
                   effects s
                   @ [Speak ''Voice enrollment started. Repeat each phrase after me.'',
                      Speak ''My voice is my password'', RecordAudio 4000,
                      Speak ''SynapSense keeps me safe'', RecordAudio 4000,
                      Speak ''Home sweet home'', RecordAudio 4000,
                      EnrollUser (getUserId ownerName) [b0, b1, b2] True,
                      Speak ''Voiceprint created successfully.'',
                      SetTimeout StatusIdle 3000]
               \<and> (\<exists>enrolled. getEnrolledOwners (runEnrollment env ownerName s) = Inr enrolled
                     \<and> ownerName \<in> set enrolled)))
       \<and> (k < 3 \<and> recordAudio env k 4000 = Inl e
            \<and> (\<forall>j<k. \<exists>b. recordAudio env j 4000 = Inr b) \<longrightarrow>
            status (runEnrollment env ownerName s) = ''error''
            \<and> statusMessage (runEnrollment env ownerName s) = Plain (message e)
            \<and> \<not> enrollmentInProgressRef (runEnrollment env ownerName s)
            \<and> \<not> isEnrolling (runEnrollment env ownerName s)
            \<and> getEnrolledOwners (runEnrollment env ownerName s) = getEnrolledOwners s
            \<and> enrolledOwners (runEnrollment env ownerName s) = enrolledOwners s
            \<and> isEnrolled (runEnrollment env ownerName s) = isEnrolled s
            \<and> effects (runEnrollment env ownerName s) =
                effects s
                @ Speak ''Voice enrollment started. Repeat each phrase after me.''
                # concat (map (\<lambda>ph. [Speak ph, RecordAudio 4000])
                            (take (Suc k) ENROLLMENT_PHRASES)))
       \<and> (recordAudio env 0 4000 = Inr c0 \<and> recordAudio env 1 4000 = Inr c1
            \<and> recordAudio env 2 4000 = Inr c2
            \<and> \<not> (\<exists>result. enrollUser env (getUserId ownerName) [c0, c1, c2] True = Inr result
                     \<and> e_success result) \<longrightarrow>
            status (runEnrollment env ownerName s) = ''error''
            \<and> statusMessage (runEnrollment env ownerName s)
                = Plain (case enrollUser env (getUserId ownerName) [c0, c1, c2] True of
                           Inl e \<Rightarrow> message e
                         | Inr result \<Rightarrow> e_message result)
            \<and> \<not> enrollmentInProgressRef (runEnrollment env ownerName s)
            \<and> \<not> isEnrolling (runEnrollment env ownerName s)
            \<and> getEnrolledOwners (runEnrollment env ownerName s) = getEnrolledOwners s
            \<and> enrolledOwners (runEnrollment env ownerName s) = enrolledOwners s
            \<and> isEnrolled (runEnrollment env ownerName s) = isEnrolled s
            \<and> effects (runEnrollment env ownerName s) =
                effects s
                @ [Speak ''Voice enrollment started. Repeat each phrase after me.'',
                   Speak ''My voice is my password'', RecordAudio 4000,
                   Speak ''SynapSense keeps me safe'', RecordAudio 4000,
                   Speak ''Home sweet home'', RecordAudio 4000,
                   EnrollUser (getUserId ownerName) [c0, c1, c2] True,
                   SetTimeout StatusIdle 3000])"
proof -
  have refused: "status (runEnrollment env ownerName s) = ''error''
            \<and> statusMessage (runEnrollment env ownerName s)
                = Plain (case enrollUser env (getUserId ownerName) [c0, c1, c2] True of
                           Inl e \<Rightarrow> message e
                         | Inr result \<Rightarrow> e_message result)
            \<and> \<not> enrollmentInProgressRef (runEnrollment env ownerName s)
            \<and> \<not> isEnrolling (runEnrollment env ownerName s)
            \<and> getEnrolledOwners (runEnrollment env ownerName s) = getEnrolledOwners s
            \<and> enrolledOwners (runEnrollment env ownerName s) = enrolledOwners s
            \<and> isEnrolled (runEnrollment env ownerName s) = isEnrolled s
            \<and> effects (runEnrollment env ownerName s) =
                effects s
                @ [Speak ''Voice enrollment started. Repeat each phrase after me.'',
                   Speak ''My voice is my password'', RecordAudio 4000,
                   Speak ''SynapSense keeps me safe'', RecordAudio 4000,
                   Speak ''Home sweet home'', RecordAudio 4000,
                   EnrollUser (getUserId ownerName) [c0, c1, c2] True,
                   SetTimeout StatusIdle 3000]"
    if r0: "recordAudio env 0 4000 = Inr c0" and r1: "recordAudio env 1 4000 = Inr c1"
      and r2: "recordAudio env 2 4000 = Inr c2"
      and no: "\<not> (\<exists>result. enrollUser env (getUserId ownerName) [c0, c1, c2] True = Inr result
                     \<and> e_success result)"
    by (simp add: run_captured [OF assms r0 r1 r2, of ownerName] Let_def
        build_voiceprint_refused [OF no] getEnrolledOwners_def)
  have reached: "\<exists>b0 b1 b2 result.
               recordAudio env 0 4000 = Inr b0 \<and> recordAudio env 1 4000 = Inr b1
               \<and> recordAudio env 2 4000 = Inr b2
               \<and> enrollUser env (getUserId ownerName) [b0, b1, b2] True = Inr result
               \<and> e_success result
               \<and> effects (runEnrollment env ownerName s) =
                   effects s
                   @ [Speak ''Voice enrollment started. Repeat each phrase after me.'',
                      Speak ''My voice is my password'', RecordAudio 4000,
                      Speak ''SynapSense keeps me safe'', RecordAudio 4000,
                      Speak ''Home sweet home'', RecordAudio 4000,
                      EnrollUser (getUserId ownerName) [b0, b1, b2] True,
                      Speak ''Voiceprint created successfully.'',
                      SetTimeout StatusIdle 3000]
               \<and> (\<exists>enrolled. getEnrolledOwners (runEnrollment env ownerName s) = Inr enrolled
                     \<and> ownerName \<in> set enrolled)"
    if ok: "status (runEnrollment env ownerName s) = ''success''"
  proof (cases "recordAudio env 0 4000")
    case (Inl e0)
    from ok show ?thesis by (simp add: run_fail0 [OF assms Inl])
  next
    case r0: (Inr b0)
    show ?thesis
    proof (cases "recordAudio env 1 4000")
      case (Inl e1)
      from ok show ?thesis by (simp add: run_fail1 [OF assms r0 Inl])
    next
      case r1: (Inr b1)
      show ?thesis
      proof (cases "recordAudio env 2 4000")
        case (Inl e2)
        from ok show ?thesis by (simp add: run_fail2 [OF assms r0 r1 Inl])
      next
        case r2: (Inr b2)
        let ?s3 = "s\<lparr>enrollmentInProgressRef := True, isEnrolling := True, enrollmentStep := 3,
                currentEnrollPhrase := '''', status := ''processing'',
                statusMessage := Plain ''CREATING VOICEPRINT...'',
                effects := effects s
                  @ [Speak ''Voice enrollment started. Repeat each phrase after me.'',
                     Speak ''My voice is my password'', RecordAudio 4000,
                     Speak ''SynapSense keeps me safe'', RecordAudio 4000,
                     Speak ''Home sweet home'', RecordAudio 4000,
                     EnrollUser (getUserId ownerName) [b0, b1, b2] True]\<rparr>"
        note run = run_captured [OF assms r0 r1 r2, of ownerName]
        from ok have "status (case build_voiceprint env ownerName [b0, b1, b2] ?s3 of
                     Inr s' \<Rightarrow> s'
                   | Inl e \<Rightarrow> ?s3\<lparr>status := ''error'', statusMessage := Plain (message e)\<rparr>)
             = ''success''"
          by (simp add: run Let_def)
        from build_voiceprint_success [OF this]
        obtain result s' enrolled where
          "enrollUser env (getUserId ownerName) [b0, b1, b2] True = Inr result"
          "e_success result"
          "build_voiceprint env ownerName [b0, b1, b2] ?s3 = Inr s'"
          "effects s' = effects ?s3 @ [Speak ''Voiceprint created successfully.'']"
          "getEnrolledOwners s' = Inr enrolled" "ownerName \<in> set enrolled"
          by blast
        with r0 r1 r2 show ?thesis
          by (simp add: run Let_def getEnrolledOwners_def)
      qed
    qed
  qed
  have failed: "status (runEnrollment env ownerName s) = ''error''
            \<and> statusMessage (runEnrollment env ownerName s) = Plain (message e)
            \<and> \<not> enrollmentInProgressRef (runEnrollment env ownerName s)
            \<and> \<not> isEnrolling (runEnrollment env ownerName s)
            \<and> getEnrolledOwners (runEnrollment env ownerName s) = getEnrolledOwners s
            \<and> enrolledOwners (runEnrollment env ownerName s) = enrolledOwners s
            \<and> isEnrolled (runEnrollment env ownerName s) = isEnrolled s
            \<and> effects (runEnrollment env ownerName s) =
                effects s
                @ Speak ''Voice enrollment started. Repeat each phrase after me.''
                # concat (map (\<lambda>ph. [Speak ph, RecordAudio 4000])
                            (take (Suc k) ENROLLMENT_PHRASES))"
    if "k < 3" "recordAudio env k 4000 = Inl e" "\<forall>j<k. \<exists>b. recordAudio env j 4000 = Inr b"
  proof -
    from that(1) consider "k = 0" | "k = 1" | "k = 2" by linarith
    then show ?thesis
    proof cases
      case 1
      with that(2) have f: "recordAudio env 0 4000 = Inl e" by simp
      show ?thesis
        by (simp add: run_fail0 [OF assms f] 1 getEnrolledOwners_def ENROLLMENT_PHRASES_def)
    next
      case 2
      with that(3) obtain b0 where r0: "recordAudio env 0 4000 = Inr b0" by auto
      from 2 that(2) have f: "recordAudio env 1 4000 = Inl e" by simp
      show ?thesis
        by (simp add: run_fail1 [OF assms r0 f] 2 getEnrolledOwners_def ENROLLMENT_PHRASES_def)
    next
      case 3
      from 3 that(3) have "\<exists>b. recordAudio env 0 4000 = Inr b" by simp
      then obtain b0 where r0: "recordAudio env 0 4000 = Inr b0" ..
      from 3 that(3) have "\<exists>b. recordAudio env 1 4000 = Inr b" by simp
      then obtain b1 where r1: "recordAudio env 1 4000 = Inr b1" ..
      from 3 that(2) have f: "recordAudio env 2 4000 = Inl e" by simp
      show ?thesis
        by (simp add: run_fail2 [OF assms r0 r1 f] 3 getEnrolledOwners_def
            ENROLLMENT_PHRASES_def numeral_2_eq_2)
    qed
  qed
  from reached failed refused show ?thesis by blast
qed

theorem enrollment_done_or_failed_witness:
  "\<not> enrollmentInProgressRef initial_state
   \<and> status (runEnrollment three_samples ''guest'' initial_state) = ''success''
   \<and> (\<exists>b0 b1 b2 result.
         recordAudio three_samples 0 4000 = Inr b0 \<and> recordAudio three_samples 1 4000 = Inr b1
         \<and> recordAudio three_samples 2 4000 = Inr b2
         \<and> enrollUser three_samples (getUserId ''guest'') [b0, b1, b2] True = Inr result
         \<and> e_success result
         \<and> (\<exists>enrolled. getEnrolledOwners (runEnrollment three_samples ''guest'' initial_state)
                           = Inr enrolled \<and> ''guest'' \<in> set enrolled))
   \<and> (1::nat) < 3
   \<and> recordAudio second_capture_fails 1 4000 = Inl (Error ''Microphone denied'')
   \<and> recordAudio second_capture_fails 0 4000 = Inr (sample 2000)
   \<and> status (runEnrollment second_capture_fails ''guest'' initial_state) = ''error''
   \<and> statusMessage (runEnrollment second_capture_fails ''guest'' initial_state)
       = Plain ''Microphone denied''
   \<and> \<not> enrollmentInProgressRef (runEnrollment second_capture_fails ''guest'' initial_state)
   \<and> getEnrolledOwners (runEnrollment second_capture_fails ''guest'' initial_state) = Inr []
   \<and> effects (runEnrollment second_capture_fails ''guest'' initial_state) =
       [Speak ''Voice enrollment started. Repeat each phrase after me.'',
        Speak ''My voice is my password'', RecordAudio 4000,
        Speak ''SynapSense keeps me safe'', RecordAudio 4000]
   \<and> recordAudio enrollment_refused 0 4000 = Inr (sample 2000)
   \<and> recordAudio enrollment_refused 1 4000 = Inr (sample 2001)
   \<and> recordAudio enrollment_refused 2 4000 = Inr (sample 2002)
   \<and> enrollUser enrollment_refused (getUserId ''guest'')
        [sample 2000, sample 2001, sample 2002] True
       = Inr \<lparr>e_success = False, e_message = ''Samples too short''\<rparr>
   \<and> status (runEnrollment enrollment_refused ''guest'' initial_state) = ''error''
   \<and> statusMessage (runEnrollment enrollment_refused ''guest'' initial_state)
       = Plain ''Samples too short''
   \<and> \<not> enrollmentInProgressRef (runEnrollment enrollment_refused ''guest'' initial_state)
   \<and> getEnrolledOwners (runEnrollment enrollment_refused ''guest'' initial_state) = Inr []
   \<and> enrolledOwners (runEnrollment enrollment_refused ''guest'' initial_state) = []
   \<and> \<not> isEnrolled (runEnrollment enrollment_refused ''guest'' initial_state)"
proof -
  have h: "\<not> enrollmentInProgressRef initial_state" by (simp add: initial_state_def)
  have g: "recordAudio enrollment_refused 0 4000 = Inr (sample 2000)"
    "recordAudio enrollment_refused 1 4000 = Inr (sample 2001)"
    "recordAudio enrollment_refused 2 4000 = Inr (sample 2002)"
    "enrollUser enrollment_refused (getUserId ''guest'')
        [sample 2000, sample 2001, sample 2002] True
       = Inr \<lparr>e_success = False, e_message = ''Samples too short''\<rparr>"
    by (simp_all add: enrollment_refused_def backend_def)
  from g(4) have no: "\<not> (\<exists>result. enrollUser enrollment_refused (getUserId ''guest'')
        [sample 2000, sample 2001, sample 2002] True = Inr result \<and> e_success result)"
    by simp
  have start: "enrolledOwners initial_state = []" "\<not> isEnrolled initial_state"
    by (simp_all add: initial_state_def)
  have ok: "status (runEnrollment three_samples ''guest'' initial_state) = ''success''"
    by (simp add: run_eval build_voiceprint_def markOwnerEnrolled_def setEnrolledOwners_def
        getEnrolledOwners_def three_samples_def backend_def initial_state_def)
  have f1: "recordAudio second_capture_fails 1 4000 = Inl (Error ''Microphone denied'')"
    and f0: "recordAudio second_capture_fails 0 4000 = Inr (sample 2000)"
    by (simp_all add: second_capture_fails_def backend_def)
  from f0 have before: "\<forall>j<1. \<exists>b. recordAudio second_capture_fails j 4000 = Inr b" by simp
  have stored: "getEnrolledOwners initial_state = Inr []" "effects initial_state = []"
    by (simp_all add: getEnrolledOwners_def initial_state_def)
  from enrollment_done_or_failed [OF h, of three_samples "''guest''"] ok
  have r1: "\<exists>b0 b1 b2 result.
         recordAudio three_samples 0 4000 = Inr b0 \<and> recordAudio three_samples 1 4000 = Inr b1
         \<and> recordAudio three_samples 2 4000 = Inr b2
         \<and> enrollUser three_samples (getUserId ''guest'') [b0, b1, b2] True = Inr result
         \<and> e_success result
         \<and> (\<exists>enrolled. getEnrolledOwners (runEnrollment three_samples ''guest'' initial_state)
                           = Inr enrolled \<and> ''guest'' \<in> set enrolled)"
    by blast
  from enrollment_done_or_failed
      [OF h, of second_capture_fails "''guest''" 1 "Error ''Microphone denied''"] f1 before
  have r2: "status (runEnrollment second_capture_fails ''guest'' initial_state) = ''error''
   \<and> statusMessage (runEnrollment second_capture_fails ''guest'' initial_state)
       = Plain ''Microphone denied''
   \<and> \<not> enrollmentInProgressRef (runEnrollment second_capture_fails ''guest'' initial_state)
   \<and> getEnrolledOwners (runEnrollment second_capture_fails ''guest'' initial_state) = Inr []
   \<and> effects (runEnrollment second_capture_fails ''guest'' initial_state) =
       [Speak ''Voice enrollment started. Repeat each phrase after me.'',
        Speak ''My voice is my password'', RecordAudio 4000,
        Speak ''SynapSense keeps me safe'', RecordAudio 4000]"
    by (simp add: stored ENROLLMENT_PHRASES_def)
  from enrollment_done_or_failed
      [OF h, of enrollment_refused "''guest''" _ _ "sample 2000" "sample 2001" "sample 2002"]
    g(1-3) no
  have r3: "status (runEnrollment enrollment_refused ''guest'' initial_state) = ''error''
   \<and> statusMessage (runEnrollment enrollment_refused ''guest'' initial_state)
       = Plain ''Samples too short''
   \<and> \<not> enrollmentInProgressRef (runEnrollment enrollment_refused ''guest'' initial_state)
   \<and> getEnrolledOwners (runEnrollment enrollment_refused ''guest'' initial_state) = Inr []
   \<and> enrolledOwners (runEnrollment enrollment_refused ''guest'' initial_state) = []
   \<and> \<not> isEnrolled (runEnrollment enrollment_refused ''guest'' initial_state)"
    by (simp add: stored start g(4))
  from h ok r1 f1 f0 r2 g r3 show ?thesis by simp
qed

subsection \<open>The outcome of a challenge\<close>

text \<open>
  Claim C2 says that a verify result with \<open>speakerMatch\<close> and \<open>phraseMatch\<close> both true gives
  the status \<^verbatim>\<open>verified\<close>, and that this state does not revert by itself. The code also
  asks for \<open>success\<close>: a result with \<open>success = false\<close> and both flags true is denied.
  And the timer callback at the end of performVerification tests the \<^verbatim>\<open>status\<close> of its
  closure, which is the status of the render in which performVerification was created
  and not the one set since: after a run whose closure holds the status \<^verbatim>\<open>idle\<close> and
  that ended in \<^verbatim>\<open>verified\<close>, the callback sets the status back to \<^verbatim>\<open>idle\<close>.
\<close>

theorem performVerification_counterexample:
  "status (performVerification
             (answering \<lparr>success = False, speakerMatch = True, phraseMatch = True\<rparr>)
             enrolled_state) = ''denied''
   \<and> \<not> isVerified (performVerification
             (answering \<lparr>success = False, speakerMatch = True, phraseMatch = True\<rparr>)
             enrolled_state)
   \<and> status (performVerification
             (answering \<lparr>success = True, speakerMatch = True, phraseMatch = True\<rparr>)
             enrolled_state) = ''verified''
   \<and> last (effects (performVerification
             (answering \<lparr>success = True, speakerMatch = True, phraseMatch = True\<rparr>)
             enrolled_state)) = SetTimeout (StatusIdleUnlessVerified ''idle'') 3000
   \<and> status (fire (StatusIdleUnlessVerified ''idle'') (performVerification
             (answering \<lparr>success = True, speakerMatch = True, phraseMatch = True\<rparr>)
             enrolled_state)) = ''idle''"
  by (simp add: verify_eval answering_def backend_def issued_def sample_def enrolled_state_def
      initial_state_def)

text \<open>
  Claim C2, amended. Take a run of performVerification that reaches the verify call and
  gets a result: a voiceprint exists, the challenge is issued, the response is recorded
  and has at least 1000 bytes. If \<open>success\<close>, \<open>speakerMatch\<close> and \<open>phraseMatch\<close> are all
  true, the status becomes \<^verbatim>\<open>verified\<close>, \<open>isVerified\<close> is set and \<open>currentUser\<close> is the target
  profile (the first enrolled profile, or the default one). In every other case the
  status becomes \<^verbatim>\<open>denied\<close> with a message that shows \<open>speakerMatch\<close> and \<open>phraseMatch\<close>
  each by its own mark, and \<open>isVerified\<close> and \<open>currentUser\<close> stay as they were. No timer
  callback changes \<open>isVerified\<close> or \<open>currentUser\<close>.
\<close>

theorem performVerification_outcome:
  assumes "isEnrolled s"
    and "startChallenge env (getUserId (target_profile s)) = Inr ch" and "c_success ch"
    and "recordAudio env 0 5000 = Inr audioBlob" and "1000 \<le> blob_size audioBlob"
    and "verifyChallengeWithText env (sessionId ch) audioBlob
           (if spokenText env = [] then phrase ch else spokenText env) = Inr result"
  shows "(success result \<and> speakerMatch result \<and> phraseMatch result \<longrightarrow>
            status (performVerification env s) = ''verified''
            \<and> isVerified (performVerification env s)
            \<and> currentUser (performVerification env s) = Some (target_profile s))
       \<and> (\<not> (success result \<and> speakerMatch result \<and> phraseMatch result) \<longrightarrow>
            status (performVerification env s) = ''denied''
            \<and> statusMessage (performVerification env s)
                = VOICE_PHRASE (speakerMatch result) (phraseMatch result)
            \<and> isVerified (performVerification env s) = isVerified s
            \<and> currentUser (performVerification env s) = currentUser s)
       \<and> isVerified (fire cb (performVerification env s))
            = isVerified (performVerification env s)
       \<and> currentUser (fire cb (performVerification env s))
            = currentUser (performVerification env s)"
proof -
  have frame: "isVerified (fire cb x) = isVerified x \<and> currentUser (fire cb x) = currentUser x"
    for x by (cases cb) (simp_all add: updateStatus_def)
  show ?thesis
  proof (cases "success result \<and> speakerMatch result \<and> phraseMatch result")
    case True
    with assms frame show ?thesis by (simp add: verify_eval)
  next
    case False
    with assms frame show ?thesis by (simp add: verify_eval)
  qed
qed

theorem performVerification_outcome_witness:
  "isEnrolled enrolled_state \<and> target_profile enrolled_state = ''owner''
   \<and> c_success issued \<and> 1000 \<le> blob_size (sample 1500)
   \<and> startChallenge (answering \<lparr>success = True, speakerMatch = True, phraseMatch = True\<rparr>)
        ''voice_owner'' = Inr issued
   \<and> recordAudio (answering \<lparr>success = True, speakerMatch = True, phraseMatch = True\<rparr>)
        0 5000 = Inr (sample 1500)
   \<and> verifyChallengeWithText
        (answering \<lparr>success = True, speakerMatch = True, phraseMatch = True\<rparr>)
        ''session-1'' (sample 1500) ''Home sweet home''
       = Inr \<lparr>success = True, speakerMatch = True, phraseMatch = True\<rparr>
   \<and> status (performVerification
               (answering \<lparr>success = True, speakerMatch = True, phraseMatch = True\<rparr>)
               enrolled_state) = ''verified''
   \<and> isVerified (performVerification
               (answering \<lparr>success = True, speakerMatch = True, phraseMatch = True\<rparr>)
               enrolled_state)
   \<and> currentUser (performVerification
               (answering \<lparr>success = True, speakerMatch = True, phraseMatch = True\<rparr>)
               enrolled_state) = Some ''owner''
   \<and> verifyChallengeWithText
        (answering \<lparr>success = True, speakerMatch = True, phraseMatch = False\<rparr>)
        ''session-1'' (sample 1500) ''Home sweet home''
       = Inr \<lparr>success = True, speakerMatch = True, phraseMatch = False\<rparr>
   \<and> status (performVerification
               (answering \<lparr>success = True, speakerMatch = True, phraseMatch = False\<rparr>)
               enrolled_state) = ''denied''
   \<and> statusMessage (performVerification
               (answering \<lparr>success = True, speakerMatch = True, phraseMatch = False\<rparr>)
               enrolled_state) = VOICE_PHRASE True False
   \<and> \<not> isVerified (performVerification
               (answering \<lparr>success = True, speakerMatch = True, phraseMatch = False\<rparr>)
               enrolled_state)"
proof -
  let ?yes = "\<lparr>success = True, speakerMatch = True, phraseMatch = True\<rparr>"
  let ?no = "\<lparr>success = True, speakerMatch = True, phraseMatch = False\<rparr>"
  have h1: "isEnrolled enrolled_state" and tp: "target_profile enrolled_state = ''owner''"
    and nv: "\<not> isVerified enrolled_state"
    by (simp_all add: target_profile_def state_eval)
  have h3: "c_success issued" and ph: "phrase issued = ''Home sweet home''"
    and sid: "sessionId issued = ''session-1''"
    by (simp_all add: issued_def)
  have h5: "1000 \<le> blob_size (sample 1500)" by (simp add: sample_def)
  have env: "startChallenge (answering r) u = Inr issued"
    "recordAudio (answering r) 0 5000 = Inr (sample 1500)"
    "verifyChallengeWithText (answering r) i b t = Inr r"
    "spokenText (answering r) = []" for r u i b t
    by (simp_all add: answering_def backend_def)
  have h6: "verifyChallengeWithText (answering r) (sessionId issued) (sample 1500)
           (if spokenText (answering r) = [] then phrase issued else spokenText (answering r))
           = Inr r" for r
    by (rule env)
  from performVerification_outcome [OF h1 env(1) h3 env(2) h5 h6, of ?yes]
  have yes: "status (performVerification (answering ?yes) enrolled_state) = ''verified''
             \<and> isVerified (performVerification (answering ?yes) enrolled_state)
             \<and> currentUser (performVerification (answering ?yes) enrolled_state) = Some ''owner''"
    by (simp add: tp)
  from performVerification_outcome [OF h1 env(1) h3 env(2) h5 h6, of ?no]
  have no: "status (performVerification (answering ?no) enrolled_state) = ''denied''
            \<and> statusMessage (performVerification (answering ?no) enrolled_state)
                = VOICE_PHRASE True False
            \<and> \<not> isVerified (performVerification (answering ?no) enrolled_state)"
    by (simp add: nv)
  from h1 tp h3 h5 yes no show ?thesis by (simp add: env)
qed

end
